theory Spec2Isabelle
  imports Complex_Main "HOL-Library.Word" "HOL-Library.Sublist"
begin

unbundle bit_operations_syntax

section \<open>The wallpaper curation pipeline (scripts/curate_wallpapers.py)\<close>

text \<open>
  A shallow embedding of the orchestration code of \<^verbatim>\<open>curate_wallpapers.py\<close>: deduplication
  by perceptual hash, repository cloning with retries, the asset scan, identifier
  generation, the per-repository processing loop, the checkpoint file and the main loop.

  What the script obtains from outside itself is made an explicit input of the model:
  \<^item> the results of the image libraries on one file (size, dimensions, perceptual hash,
    embedding, colours, brightness, contrast, resolution) are fields of \<open>file_entry\<close>;
  \<^item> the outcome of each \<^verbatim>\<open>subprocess.run\<close> of git is given by a function of the attempt
    number and the step;
  \<^item> \<^verbatim>\<open>hashlib.md5(...).hexdigest()\<close>, \<^verbatim>\<open>json.dump\<close> and \<^verbatim>\<open>json.load\<close> are function
    parameters (\<open>md5_hexdigest\<close>, \<open>dumps\<close>, \<open>loads\<close>);
  \<^item> the clock read by \<^verbatim>\<open>datetime.utcnow()\<close> is a parameter.
  Logging is not modelled.
\<close>

subsection \<open>Strings\<close>

text \<open>Python's \<^verbatim>\<open>needle in haystack\<close> on strings.\<close>

fun contains :: "string \<Rightarrow> string \<Rightarrow> bool" where
  "contains needle [] = (needle = [])"
| "contains needle (c # cs) = (if prefix needle (c # cs) then True else contains needle cs)"

text \<open>\<^verbatim>\<open>str.endswith\<close>.\<close>

definition endswith :: "string \<Rightarrow> string \<Rightarrow> bool" where
  "endswith s suf = (length suf \<le> length s \<and> drop (length s - length suf) s = suf)"

text \<open>\<^verbatim>\<open>str.lower\<close> on ASCII letters (characters are bytes here; other bytes are kept).\<close>

definition lower_char :: "char \<Rightarrow> char" where
  "lower_char c = (let n = (of_char c :: nat) in if 65 \<le> n \<and> n \<le> 90 then char_of (n + 32) else c)"

definition lower :: "string \<Rightarrow> string" where
  "lower s = map lower_char s"

text \<open>\<^verbatim>\<open>s.replace(old, new)\<close> for a one-character \<open>old\<close>.\<close>

definition replace1 :: "char \<Rightarrow> string \<Rightarrow> string \<Rightarrow> string" where
  "replace1 old new s = concat (map (\<lambda>c. if c = old then new else [c]) s)"

text \<open>The exceptions that the model tracks.\<close>

datatype error = OSError | JSONDecodeError | AttributeError | TypeError | UnicodeEncodeError

text \<open>
  A string is the list of its bytes. A file name that is not well-formed UTF-8 reaches the
  script as a \<^verbatim>\<open>str\<close> with surrogate escapes, on which \<^verbatim>\<open>str.encode()\<close> raises
  \<^verbatim>\<open>UnicodeEncodeError\<close>; on a well-formed one \<^verbatim>\<open>encode\<close> gives the bytes back.
  \<open>valid_utf8\<close> is the well-formedness of a byte sequence (one to four bytes per character,
  no overlong form, no surrogate, nothing above U+10FFFF).
\<close>

definition in_range :: "nat \<Rightarrow> nat \<Rightarrow> char \<Rightarrow> bool" where
  "in_range lo hi c = (lo \<le> of_char c \<and> (of_char c :: nat) \<le> hi)"

fun valid_utf8 :: "string \<Rightarrow> bool" where
  "valid_utf8 [] = True"
| "valid_utf8 (a # s) =
     (if in_range 0 127 a then valid_utf8 s
      else if in_range 194 223 a then
        (case s of b # s1 \<Rightarrow> in_range 128 191 b \<and> valid_utf8 s1 | _ \<Rightarrow> False)
      else if in_range 224 239 a then
        (case s of
           b # c # s2 \<Rightarrow>
             in_range (if a = CHR 0xE0 then 160 else 128) (if a = CHR 0xED then 159 else 191) b
             \<and> in_range 128 191 c \<and> valid_utf8 s2
         | _ \<Rightarrow> False)
      else if in_range 240 244 a then
        (case s of
           b # c # d # s3 \<Rightarrow>
             in_range (if a = CHR 0xF0 then 144 else 128) (if a = CHR 0xF4 then 143 else 191) b
             \<and> in_range 128 191 c \<and> in_range 128 191 d \<and> valid_utf8 s3
         | _ \<Rightarrow> False)
      else False)"

definition encode :: "string \<Rightarrow> error + string" where
  "encode s = (if valid_utf8 s then Inr s else Inl UnicodeEncodeError)"

subsection \<open>Configuration\<close>

definition SUPPORTED_EXTENSIONS :: "string list" where
  "SUPPORTED_EXTENSIONS = [''.jpg'', ''.jpeg'', ''.png'', ''.webp'']"

definition MIN_RESOLUTION :: "nat \<times> nat" where
  "MIN_RESOLUTION = (800, 600)"

definition MAX_FILE_SIZE :: nat where
  "MAX_FILE_SIZE = 20 * 1024 * 1024"

definition PHASH_THRESHOLD :: nat where
  "PHASH_THRESHOLD = 5"

subsection \<open>Perceptual hashes\<close>

text \<open>
  \<^verbatim>\<open>imagehash.phash\<close> yields an 8x8 bit matrix; the script keeps it as its 16-digit
  hexadecimal string and turns it back into the matrix with \<^verbatim>\<open>hex_to_hash\<close> at every
  comparison. The string and the matrix are in one-to-one correspondence, so a hash is a
  64-bit word here. \<^verbatim>\<open>a - b\<close> on two \<^verbatim>\<open>ImageHash\<close> values counts the positions where the
  bits differ.
\<close>

type_synonym phash = "64 word"

definition hash_sub :: "phash \<Rightarrow> phash \<Rightarrow> nat" where
  "hash_sub a b = length (filter (\<lambda>i. bit a i \<noteq> bit b i) [0..<64])"

text \<open>
  The duplicate check of \<^verbatim>\<open>process_repository\<close>:
  \<^verbatim>\<open>
  is_duplicate = False
  for existing_hash in processed_hashes:
      if hex_to_hash(phash) - hex_to_hash(existing_hash) <= PHASH_THRESHOLD:
          is_duplicate = True
          break
  \<close>
  \<open>processed_hashes\<close> is a Python set; the list holds its elements in the order the
  loop visits them.
\<close>

fun is_duplicate :: "phash \<Rightarrow> phash list \<Rightarrow> bool" where
  "is_duplicate phash [] = False"
| "is_duplicate phash (existing_hash # rest) =
     (if hash_sub phash existing_hash \<le> PHASH_THRESHOLD then True else is_duplicate phash rest)"

text \<open>\<^verbatim>\<open>processed_hashes.add(phash)\<close>.\<close>

definition set_add :: "phash \<Rightarrow> phash list \<Rightarrow> phash list" where
  "set_add phash hs = (if phash \<in> set hs then hs else hs @ [phash])"

subsection \<open>Python values\<close>

text \<open>
  The values the script hands to \<^verbatim>\<open>json.dump\<close> and gets back from \<^verbatim>\<open>json.load\<close>:
  \<^verbatim>\<open>None\<close>, booleans, integers, floats, strings, lists and dictionaries with string keys
  (in insertion order).
\<close>

datatype json =
    JNull
  | JBool bool
  | JInt int
  | JFloat real
  | JStr string
  | JArr "json list"
  | JObj "(string \<times> json) list"

text \<open>\<^verbatim>\<open>d.get(key, default)\<close> on a dictionary.\<close>

definition dict_get :: "(string \<times> json) list \<Rightarrow> string \<Rightarrow> json \<Rightarrow> json" where
  "dict_get d key dflt = (case map_of d key of None \<Rightarrow> dflt | Some v \<Rightarrow> v)"

text \<open>\<^verbatim>\<open>v[key]\<close> on a dictionary, \<open>None\<close> where Python raises.\<close>

definition subscript :: "json \<Rightarrow> string \<Rightarrow> json option" where
  "subscript v key = (case v of JObj d \<Rightarrow> map_of d key | other \<Rightarrow> None)"

subsection \<open>Repositories and their files\<close>

text \<open>An entry of \<^verbatim>\<open>REPOSITORIES\<close>.\<close>

record repository =
  repo_url :: string
  repo_branch :: string
  repo_name :: string
  repo_test_path :: "string option"

definition REPOSITORIES :: "repository list" where
  "REPOSITORIES = [
     \<lparr>repo_url = ''https://github.com/dharmx/walls'', repo_branch = ''main'',
      repo_name = ''dharmx/walls'', repo_test_path = Some ''animated''\<rparr>,
     \<lparr>repo_url = ''https://github.com/D3Ext/aesthetic-wallpapers'', repo_branch = ''main'',
      repo_name = ''D3Ext/aesthetic-wallpapers'', repo_test_path = Some ''images/anime''\<rparr>,
     \<lparr>repo_url = ''https://github.com/makccr/wallpapers'', repo_branch = ''master'',
      repo_name = ''makccr/wallpapers'', repo_test_path = Some ''Abstract''\<rparr>,
     \<lparr>repo_url = ''https://github.com/michaelScopic/Wallpapers'', repo_branch = ''main'',
      repo_name = ''michaelScopic/Wallpapers'', repo_test_path = Some ''Minimal''\<rparr>,
     \<lparr>repo_url = ''https://github.com/fr0st-iwnl/wallz'', repo_branch = ''main'',
      repo_name = ''fr0st-iwnl/wallz'', repo_test_path = Some ''gruvbox''\<rparr>,
     \<lparr>repo_url = ''https://github.com/linuxdotexe/nordic-wallpapers'', repo_branch = ''master'',
      repo_name = ''linuxdotexe/nordic-wallpapers'', repo_test_path = Some ''wallpapers''\<rparr>,
     \<lparr>repo_url = ''https://github.com/Mvcvalli/mobile-wallpapers'', repo_branch = ''main'',
      repo_name = ''Mvcvalli/mobile-wallpapers'', repo_test_path = Some ''.''\<rparr>,
     \<lparr>repo_url = ''https://github.com/DenverCoder1/minimalistic-wallpaper-collection'',
      repo_branch = ''main'', repo_name = ''DenverCoder1/minimalistic-wallpaper-collection'',
      repo_test_path = Some ''images/minimalistic''\<rparr>]"

text \<open>
  A file of a cloned tree, with what the libraries report about it:
  \<^item> \<open>rel_path\<close>: its path relative to the clone, as \<^verbatim>\<open>str(img_path.relative_to(repo_path))\<close>;
  \<^item> \<open>st_size\<close>: \<^verbatim>\<open>img_path.stat().st_size\<close>, \<open>None\<close> when \<^verbatim>\<open>stat\<close> raises;
  \<^item> \<open>dimensions\<close>: width and height read by \<^verbatim>\<open>Image.open\<close>, \<open>None\<close> when it raises;
  \<^item> \<open>compute_perceptual_hash\<close>: \<open>None\<close> stands for the empty string that the function
    returns when hashing fails;
  \<^item> \<open>extract_embedding\<close>: the result of \<^verbatim>\<open>EmbeddingExtractor.extract\<close>, \<open>None\<close> when it fails;
  \<^item> \<open>extract_colors\<close>, \<open>calculate_brightness\<close>, \<open>calculate_contrast\<close>,
    \<open>get_image_resolution\<close>: the results of the functions of these names (each of them
    catches its own exceptions and returns a default).
\<close>

record file_entry =
  rel_path :: string
  st_size :: "nat option"
  dimensions :: "(nat \<times> nat) option"
  compute_perceptual_hash :: "phash option"
  extract_embedding :: "real list option"
  extract_colors :: "string list"
  calculate_brightness :: int
  calculate_contrast :: int
  get_image_resolution :: string

subsection \<open>The asset scan\<close>

text \<open>
  \<^verbatim>\<open>repo_path.rglob(f"*{ext}")\<close>: the files of the tree whose name ends with \<open>ext\<close>.
  \<^verbatim>\<open>Path.rglob\<close> compares names by the rule of the platform; the script runs on Linux (its
  header: GitHub Actions, Ubuntu), where the comparison is case-sensitive. The tree is
  given in the order the directory walk yields it.
\<close>

definition rglob :: "file_entry list \<Rightarrow> string \<Rightarrow> file_entry list" where
  "rglob tree ext = filter (\<lambda>f. endswith (rel_path f) ext) tree"

text \<open>The body of the filter loop: file size first, then the resolution.\<close>

definition valid_wallpaper :: "file_entry \<Rightarrow> bool" where
  "valid_wallpaper img_path =
     (case st_size img_path of
        None \<Rightarrow> False
      | Some sz \<Rightarrow>
          if sz > MAX_FILE_SIZE then False
          else (case dimensions img_path of
                  None \<Rightarrow> False
                | Some (width, height) \<Rightarrow>
                    width \<ge> fst MIN_RESOLUTION \<and> height \<ge> snd MIN_RESOLUTION))"

definition find_wallpapers :: "file_entry list \<Rightarrow> file_entry list" where
  "find_wallpapers tree =
     (let wallpapers = concat (map (rglob tree) SUPPORTED_EXTENSIONS)
      in filter valid_wallpaper wallpapers)"

subsection \<open>Identifier, URL and category\<close>

text \<open>
  \<open>md5_hexdigest\<close> is \<^verbatim>\<open>hashlib.md5(...).hexdigest()\<close> on bytes. The only step that can
  raise is \<^verbatim>\<open>hash_input.encode()\<close>.
\<close>

definition generate_wallpaper_id ::
  "(string \<Rightarrow> string) \<Rightarrow> string \<Rightarrow> string \<Rightarrow> error + string" where
  "generate_wallpaper_id md5_hexdigest repo_name' relative_path =
     (let hash_input = repo_name' @ ''/'' @ relative_path in
      case encode hash_input of
        Inl e \<Rightarrow> Inl e
      | Inr bytes \<Rightarrow>
          (let hash_hex = take 12 (md5_hexdigest bytes);
               repo_short = take 8 (replace1 (CHR ''_'') []
                              (replace1 (CHR ''-'') []
                                 (takeWhile (\<lambda>c. c \<noteq> CHR ''/'') repo_name')))
           in Inr (repo_short @ ''_'' @ hash_hex)))"

definition generate_cdn_url :: "string \<Rightarrow> string \<Rightarrow> string \<Rightarrow> string" where
  "generate_cdn_url repo_name' relative_path branch =
     (let clean_path = dropWhile (\<lambda>c. c = CHR ''/'') (replace1 (CHR 0x5C) ''/'' relative_path)
      in ''https://cdn.jsdelivr.net/gh/'' @ repo_name' @ ''@'' @ branch @ ''/'' @ clean_path)"

definition CATEGORY_KEYWORDS :: "(string \<times> string list) list" where
  "CATEGORY_KEYWORDS = [
     (''nature'', [''nature'', ''landscape'', ''forest'', ''mountain'', ''ocean'', ''sunset'',
                   ''sunrise'', ''sky'']),
     (''minimal'', [''minimal'', ''minimalist'', ''simple'', ''clean'']),
     (''dark'', [''dark'', ''black'', ''night'', ''moody'']),
     (''abstract'', [''abstract'', ''geometric'', ''pattern'', ''art'']),
     (''anime'', [''anime'', ''manga'', ''waifu'', ''character'']),
     (''gruvbox'', [''gruvbox'']),
     (''nord'', [''nord'', ''nordic'']),
     (''city'', [''city'', ''urban'', ''building'', ''street'']),
     (''space'', [''space'', ''planet'', ''galaxy'', ''star'', ''nebula'']),
     (''gradient'', [''gradient'', ''color'']),
     (''gaming'', [''game'', ''gaming'', ''cyberpunk''])]"

text \<open>The nested iteration over the keyword table: the first keyword found decides.\<close>

fun match_keywords :: "string \<Rightarrow> string list \<Rightarrow> bool" where
  "match_keywords path_str [] = False"
| "match_keywords path_str (keyword # keywords) =
     (if contains keyword path_str then True else match_keywords path_str keywords)"

fun match_categories :: "string \<Rightarrow> (string \<times> string list) list \<Rightarrow> string option" where
  "match_categories path_str [] = None"
| "match_categories path_str ((category, keywords) # rest) =
     (if match_keywords path_str keywords then Some category
      else match_categories path_str rest)"

definition detect_category :: "string \<Rightarrow> string \<Rightarrow> string" where
  "detect_category file_path repo_name' =
     (let path_str = lower file_path in
      case match_categories path_str CATEGORY_KEYWORDS of
        Some category \<Rightarrow> category
      | None \<Rightarrow>
          if contains ''minimal'' (lower repo_name') then ''minimal''
          else if contains ''nordic'' (lower repo_name') then ''nord''
          else if contains ''aesthetic'' (lower repo_name') then ''aesthetic''
          else ''other'')"

subsection \<open>Processing the images of one repository\<close>

text \<open>
  The rest of the loop body for an image whose embedding was extracted: it builds the
  dictionary \<^verbatim>\<open>wallpaper_data\<close>, or raises where \<open>generate_wallpaper_id\<close> raises.
\<close>

definition wallpaper_data ::
  "(string \<Rightarrow> string) \<Rightarrow> repository \<Rightarrow> file_entry \<Rightarrow> real list \<Rightarrow> error + json" where
  "wallpaper_data md5_hexdigest repo img_path embedding =
     (let colors = extract_colors img_path;
          brightness = calculate_brightness img_path;
          contrast = calculate_contrast img_path;
          resolution = get_image_resolution img_path;
          relative_path = rel_path img_path;
          category = detect_category relative_path (repo_name repo)
      in case generate_wallpaper_id md5_hexdigest (repo_name repo) relative_path of
           Inl e \<Rightarrow> Inl e
         | Inr wallpaper_id \<Rightarrow>
             (let cdn_url = generate_cdn_url (repo_name repo) relative_path (repo_branch repo)
              in Inr (JObj [
                   (''id'', JStr wallpaper_id),
                   (''url'', JStr cdn_url),
                   (''thumbnail'', JStr cdn_url),
                   (''source'', JStr ''github''),
                   (''repo'', JStr (repo_name repo)),
                   (''category'', JStr category),
                   (''colors'', JArr (map JStr colors)),
                   (''brightness'', JInt brightness),
                   (''contrast'', JInt contrast),
                   (''embedding'', JArr (map JFloat embedding)),
                   (''resolution'', JStr resolution),
                   (''attribution'', JStr (repo_name repo))])))"

text \<open>
  The loop \<^verbatim>\<open>for img_path in tqdm(image_paths)\<close> of \<^verbatim>\<open>process_repository\<close>, with the two
  variables it updates: the list \<open>wallpapers\<close> and the set \<open>processed_hashes\<close>. Each
  \<^verbatim>\<open>continue\<close> of the source goes on with the rest of the list and both variables
  unchanged; so does the handler \<^verbatim>\<open>except Exception: continue\<close> around the body, which an
  exception raised while the dictionary is built reaches before anything is appended.
\<close>

fun process_images ::
  "(string \<Rightarrow> string) \<Rightarrow> repository \<Rightarrow> json list \<Rightarrow> phash list \<Rightarrow> file_entry list
   \<Rightarrow> json list \<times> phash list" where
  "process_images md5_hexdigest repo wallpapers processed_hashes [] =
     (wallpapers, processed_hashes)"
| "process_images md5_hexdigest repo wallpapers processed_hashes (img_path # rest) =
     (case compute_perceptual_hash img_path of
        None \<Rightarrow> process_images md5_hexdigest repo wallpapers processed_hashes rest
      | Some phash \<Rightarrow>
          if is_duplicate phash processed_hashes
          then process_images md5_hexdigest repo wallpapers processed_hashes rest
          else (case extract_embedding img_path of
                  None \<Rightarrow> process_images md5_hexdigest repo wallpapers processed_hashes rest
                | Some embedding \<Rightarrow>
                    (case wallpaper_data md5_hexdigest repo img_path embedding of
                       Inl e \<Rightarrow>
                         process_images md5_hexdigest repo wallpapers processed_hashes rest
                     | Inr data \<Rightarrow>
                         process_images md5_hexdigest repo (wallpapers @ [data])
                           (set_add phash processed_hashes) rest)))"

subsection \<open>Cloning a repository\<close>

text \<open>
  What one \<^verbatim>\<open>subprocess.run\<close> of git does: it raises \<^verbatim>\<open>TimeoutExpired\<close>, it completes with a
  return code and a standard error text, or it raises another exception.
\<close>

datatype proc = TimeoutExpired | CompletedProcess int string | OtherException

text \<open>
  One pass through the sparse branch of the loop body, given the three runs of git of this
  attempt (clone without checkout, \<^verbatim>\<open>sparse-checkout set\<close>, checkout). A non-zero return
  code of the first or the third raises \<^verbatim>\<open>Exception\<close>, which only the outer handler
  catches; a non-zero return code of the second is logged and ignored.
\<close>

datatype attempt_result = Cloned | TimedOut | Raised

definition sparse_clone :: "(nat \<Rightarrow> proc) \<Rightarrow> attempt_result" where
  "sparse_clone run =
     (case run 0 of
        TimeoutExpired \<Rightarrow> TimedOut
      | OtherException \<Rightarrow> Raised
      | CompletedProcess returncode stderr \<Rightarrow>
          if returncode \<noteq> 0 then Raised
          else (case run 1 of
                  TimeoutExpired \<Rightarrow> TimedOut
                | OtherException \<Rightarrow> Raised
                | CompletedProcess returncode1 stderr1 \<Rightarrow>
                    (case run 2 of
                       TimeoutExpired \<Rightarrow> TimedOut
                     | OtherException \<Rightarrow> Raised
                     | CompletedProcess returncode2 stderr2 \<Rightarrow>
                         if returncode2 \<noteq> 0 then Raised else Cloned)))"

text \<open>
  The result of \<^verbatim>\<open>clone_repository\<close> with its effects: the value returned (the directory of
  the clone, or \<open>None\<close>), the number of attempts started and the sleeps made, in seconds.
\<close>

record clone_outcome =
  returned :: "string option"
  attempts :: nat
  sleeps :: "nat list"

definition repo_path :: "repository \<Rightarrow> string" where
  "repo_path repo = replace1 (CHR ''/'') ''_'' (repo_name repo)"

text \<open>
  The loop \<^verbatim>\<open>while attempt < max_retries\<close>; \<open>attempt\<close> is the value of the counter before
  the increment, \<open>git n k\<close> is the \<open>k\<close>-th run of git in attempt \<open>n\<close>. In the full branch a
  network error on the last attempt neither continues nor returns: control reaches the
  loop test again, which ends the loop.
\<close>

function clone_loop ::
  "repository \<Rightarrow> (nat \<Rightarrow> nat \<Rightarrow> proc) \<Rightarrow> bool \<Rightarrow> nat \<Rightarrow> nat \<Rightarrow> nat list \<Rightarrow> clone_outcome" where
  "clone_loop repo git test_mode max_retries attempt slept =
     (if attempt < max_retries then
        (if test_mode \<and> repo_test_path repo \<noteq> None then
           (case sparse_clone (git (Suc attempt)) of
              Cloned \<Rightarrow>
                \<lparr>returned = Some (repo_path repo), attempts = Suc attempt, sleeps = slept\<rparr>
            | TimedOut \<Rightarrow>
                if Suc attempt < max_retries
                then clone_loop repo git test_mode max_retries (Suc attempt) (slept @ [5])
                else \<lparr>returned = None, attempts = Suc attempt, sleeps = slept\<rparr>
            | Raised \<Rightarrow>
                if Suc attempt < max_retries
                then clone_loop repo git test_mode max_retries (Suc attempt) (slept @ [5])
                else \<lparr>returned = None, attempts = Suc attempt, sleeps = slept\<rparr>)
         else
           (case git (Suc attempt) 0 of
              CompletedProcess returncode stderr \<Rightarrow>
                if returncode = 0
                then \<lparr>returned = Some (repo_path repo), attempts = Suc attempt, sleeps = slept\<rparr>
                else if contains ''Could not resolve host'' stderr \<or> contains ''Connection'' stderr
                then clone_loop repo git test_mode max_retries (Suc attempt)
                       (if Suc attempt < max_retries then slept @ [5] else slept)
                else \<lparr>returned = None, attempts = Suc attempt, sleeps = slept\<rparr>
            | TimeoutExpired \<Rightarrow>
                if Suc attempt < max_retries
                then clone_loop repo git test_mode max_retries (Suc attempt) (slept @ [10])
                else \<lparr>returned = None, attempts = Suc attempt, sleeps = slept\<rparr>
            | OtherException \<Rightarrow>
                if Suc attempt < max_retries
                then clone_loop repo git test_mode max_retries (Suc attempt) (slept @ [5])
                else \<lparr>returned = None, attempts = Suc attempt, sleeps = slept\<rparr>))
      else \<lparr>returned = None, attempts = attempt, sleeps = slept\<rparr>)"
  by pat_completeness auto
termination
  by (relation "measure (\<lambda>(repo, git, test_mode, max_retries, attempt, slept). max_retries - attempt)")
     auto

definition clone_repository ::
  "repository \<Rightarrow> (nat \<Rightarrow> nat \<Rightarrow> proc) \<Rightarrow> bool \<Rightarrow> nat \<Rightarrow> clone_outcome" where
  "clone_repository repo git test_mode max_retries = clone_loop repo git test_mode max_retries 0 []"

subsection \<open>Processing one repository\<close>

text \<open>
  What the world holds for a repository: the behaviour of git on it and the file tree
  that a successful clone leaves.
\<close>

record remote =
  git_run :: "nat \<Rightarrow> nat \<Rightarrow> proc"
  cloned_tree :: "file_entry list"

text \<open>Returns the list \<open>wallpapers\<close> and the set \<open>processed_hashes\<close> as the call leaves it.\<close>

definition process_repository ::
  "(string \<Rightarrow> string) \<Rightarrow> repository \<Rightarrow> remote \<Rightarrow> phash list \<Rightarrow> bool \<Rightarrow> json list \<times> phash list" where
  "process_repository md5_hexdigest repo rem processed_hashes test_mode =
     (case returned (clone_repository repo (git_run rem) test_mode 3) of
        None \<Rightarrow> ([], processed_hashes)
      | Some path \<Rightarrow>
          (let image_paths = find_wallpapers (cloned_tree rem);
               image_paths = (if test_mode then take 10 image_paths else image_paths)
           in process_images md5_hexdigest repo [] processed_hashes image_paths))"

subsection \<open>The checkpoint file\<close>

text \<open>
  The state of \<^verbatim>\<open>CHECKPOINT_PATH\<close>: no such file, a path that exists but that \<^verbatim>\<open>open\<close>
  refuses, or a file with its text.
\<close>

datatype file_state = Absent | Denied | File string

definition checkpoint_data :: "json list \<Rightarrow> int \<Rightarrow> string \<Rightarrow> json" where
  "checkpoint_data wallpapers repo_index timestamp =
     JObj [(''wallpapers'', JArr wallpapers),
           (''last_repo_index'', JInt repo_index),
           (''timestamp'', JStr timestamp)]"

text \<open>
  \<^verbatim>\<open>with open(CHECKPOINT_PATH, 'w') as f: json.dump(checkpoint_data, f)\<close>: the successive
  contents of the file. Opening with mode \<^verbatim>\<open>'w'\<close> truncates the file; the text is then
  written into it front to back, so the contents are the prefixes of the text, the empty
  one first and the whole text last. Nothing is written when \<^verbatim>\<open>open\<close> raises.
\<close>

definition save_checkpoint_states ::
  "(json \<Rightarrow> string) \<Rightarrow> string \<Rightarrow> file_state \<Rightarrow> json list \<Rightarrow> int \<Rightarrow> file_state list" where
  "save_checkpoint_states dumps utcnow f wallpapers repo_index =
     (case f of
        Denied \<Rightarrow> []
      | _ \<Rightarrow> (let text = dumps (checkpoint_data wallpapers repo_index utcnow)
              in map (\<lambda>n. File (take n text)) [0..<Suc (length text)]))"

text \<open>The call returns with the last of these contents in the file, or raises.\<close>

definition save_checkpoint ::
  "(json \<Rightarrow> string) \<Rightarrow> string \<Rightarrow> file_state \<Rightarrow> json list \<Rightarrow> int \<Rightarrow> error + file_state" where
  "save_checkpoint dumps utcnow f wallpapers repo_index =
     (case save_checkpoint_states dumps utcnow f wallpapers repo_index of
        [] \<Rightarrow> Inl OSError
      | s # states \<Rightarrow> Inr (last (s # states)))"

text \<open>\<^verbatim>\<open>len(x)\<close> and \<^verbatim>\<open>x + 1\<close>, \<open>None\<close> where Python raises \<^verbatim>\<open>TypeError\<close>.\<close>

fun py_len :: "json \<Rightarrow> nat option" where
  "py_len (JArr xs) = Some (length xs)"
| "py_len (JStr s) = Some (length s)"
| "py_len (JObj d) = Some (length d)"
| "py_len v = None"

fun plus_one :: "json \<Rightarrow> json option" where
  "plus_one (JInt n) = Some (JInt (n + 1))"
| "plus_one (JBool b) = Some (JInt ((if b then 1 else 0) + 1))"
| "plus_one (JFloat x) = Some (JFloat (x + 1))"
| "plus_one v = None"

text \<open>
  The \<^verbatim>\<open>try\<close> block of \<^verbatim>\<open>load_checkpoint\<close>; \<open>loads\<close> is \<open>None\<close> on a text that \<^verbatim>\<open>json.load\<close>
  rejects. The log line evaluates \<^verbatim>\<open>len(wallpapers)\<close> and \<^verbatim>\<open>last_repo_index + 1\<close> before
  the \<^verbatim>\<open>return\<close>.
\<close>

definition load_checkpoint_try ::
  "(string \<Rightarrow> json option) \<Rightarrow> file_state \<Rightarrow> error + (json \<times> json \<times> phash list)" where
  "load_checkpoint_try loads f =
     (case f of
        File text \<Rightarrow>
          (case loads text of
             None \<Rightarrow> Inl JSONDecodeError
           | Some (JObj data) \<Rightarrow>
               (let wallpapers = dict_get data ''wallpapers'' (JArr []);
                    last_repo_index = dict_get data ''last_repo_index'' (JInt 0);
                    processed_hashes = []
                in case py_len wallpapers of
                     None \<Rightarrow> Inl TypeError
                   | Some n \<Rightarrow>
                       (case plus_one last_repo_index of
                          None \<Rightarrow> Inl TypeError
                        | Some resume_index \<Rightarrow> Inr (wallpapers, resume_index, processed_hashes)))
           | Some other \<Rightarrow> Inl AttributeError)
      | other \<Rightarrow> Inl OSError)"

definition load_checkpoint ::
  "(string \<Rightarrow> json option) \<Rightarrow> file_state \<Rightarrow> json \<times> json \<times> phash list" where
  "load_checkpoint loads f =
     (if f = Absent then (JArr [], JInt 0, [])
      else (case load_checkpoint_try loads f of
              Inl e \<Rightarrow> (JArr [], JInt 0, [])
            | Inr result \<Rightarrow> result))"

subsection \<open>The main loop\<close>

text \<open>
  The variables of \<^verbatim>\<open>main\<close> and the checkpoint file, together with the list of the
  checkpoints written so far (the arguments of every \<^verbatim>\<open>save_checkpoint\<close> that returned).
\<close>

record run_state =
  rs_wallpapers :: json
  rs_hashes :: "phash list"
  rs_checkpoint :: file_state
  rs_saved :: "(json list \<times> int) list"

text \<open>
  \<^verbatim>\<open>for idx, repo in enumerate(REPOSITORIES[start_index:], start=start_index)\<close>. The body is
  in a \<^verbatim>\<open>try\<close>: \<^verbatim>\<open>all_wallpapers.extend\<close> raises when a resumed checkpoint gave something
  that is not a list, \<^verbatim>\<open>save_checkpoint\<close> raises when the file cannot be opened, and the
  loop goes on with the next repository. \<open>utcnow idx\<close> is the time read at the save of
  repository \<open>idx\<close>.
\<close>

fun main_loop ::
  "(string \<Rightarrow> string) \<Rightarrow> (json \<Rightarrow> string) \<Rightarrow> (int \<Rightarrow> string) \<Rightarrow> bool \<Rightarrow> int
   \<Rightarrow> (repository \<times> remote) list \<Rightarrow> run_state \<Rightarrow> run_state" where
  "main_loop md5_hexdigest dumps utcnow test idx [] st = st"
| "main_loop md5_hexdigest dumps utcnow test idx ((repo, rem) # rest) st =
     (case process_repository md5_hexdigest repo rem (rs_hashes st) test of
        (wallpapers, hashes) \<Rightarrow>
          (case rs_wallpapers st of
             JArr acc \<Rightarrow>
               (case save_checkpoint dumps (utcnow idx) (rs_checkpoint st) (acc @ wallpapers) idx of
                  Inl e \<Rightarrow>
                    main_loop md5_hexdigest dumps utcnow test (idx + 1) rest
                      (st\<lparr>rs_wallpapers := JArr (acc @ wallpapers), rs_hashes := hashes\<rparr>)
                | Inr f \<Rightarrow>
                    main_loop md5_hexdigest dumps utcnow test (idx + 1) rest
                      (st\<lparr>rs_wallpapers := JArr (acc @ wallpapers), rs_hashes := hashes,
                          rs_checkpoint := f,
                          rs_saved := rs_saved st @ [(acc @ wallpapers, idx)]\<rparr>))
           | other \<Rightarrow>
               main_loop md5_hexdigest dumps utcnow test (idx + 1) rest
                 (st\<lparr>rs_hashes := hashes\<rparr>)))"

text \<open>\<^verbatim>\<open>xs[start:]\<close>: a negative start counts from the end.\<close>

definition slice_from :: "int \<Rightarrow> 'a list \<Rightarrow> 'a list" where
  "slice_from start xs =
     (if start < 0 then drop (nat (int (length xs) + start)) xs else drop (nat start) xs)"

text \<open>
  \<^verbatim>\<open>main\<close> up to the end of the loop (the manifest is then built from \<open>rs_wallpapers\<close>).
  \<open>world\<close> gives what each repository holds, by name. Slicing \<^verbatim>\<open>REPOSITORIES\<close> with a start
  that is not an integer raises \<^verbatim>\<open>TypeError\<close>, outside every \<^verbatim>\<open>try\<close>.
\<close>

definition main ::
  "(string \<Rightarrow> string) \<Rightarrow> (json \<Rightarrow> string) \<Rightarrow> (string \<Rightarrow> json option) \<Rightarrow> (int \<Rightarrow> string)
   \<Rightarrow> bool \<Rightarrow> bool \<Rightarrow> (string \<Rightarrow> remote) \<Rightarrow> file_state \<Rightarrow> error + run_state" where
  "main md5_hexdigest dumps loads utcnow test resume world f =
     (case (if resume then load_checkpoint loads f else (JArr [], JInt 0, [])) of
        (all_wallpapers, start_index, processed_hashes) \<Rightarrow>
          (case start_index of
             JInt start \<Rightarrow>
               Inr (main_loop md5_hexdigest dumps utcnow test start
                      (map (\<lambda>repo. (repo, world (repo_name repo))) (slice_from start REPOSITORIES))
                      \<lparr>rs_wallpapers = all_wallpapers, rs_hashes = processed_hashes,
                       rs_checkpoint = f, rs_saved = []\<rparr>)
           | other \<Rightarrow> Inl TypeError))"

subsection \<open>Sample inputs\<close>

text \<open>
  Concrete inputs for the examples below: one image of the first repository, the record
  the pipeline builds for it, a world in which only the first repository can be cloned,
  and the fragment of \<^verbatim>\<open>md5\<close>, \<^verbatim>\<open>json.dumps\<close> and \<^verbatim>\<open>json.loads\<close> that the examples need.
\<close>

definition sample_md5 :: "string \<Rightarrow> string" where
  "sample_md5 s =
     (if s = ''dharmx/walls/a.jpg'' then ''da77e7bb40309fff40e50b5756bb611a''
      else if s = ''D3Ext/aesthetic-wallpapers/b.jpg'' then ''6f36890fc93effec7467de8476dee5d6''
      else [])"

definition sample_image :: file_entry where
  "sample_image =
     \<lparr>rel_path = ''a.jpg'', st_size = Some 500000, dimensions = Some (1920, 1080),
      compute_perceptual_hash = Some 0x8f3c2a11d4e0b597, extract_embedding = Some [1],
      extract_colors = [''#282828''], calculate_brightness = 40, calculate_contrast = 30,
      get_image_resolution = ''1920x1080''\<rparr>"

definition sample_record :: json where
  "sample_record = JObj [
     (''id'', JStr ''dharmx_da77e7bb4030''),
     (''url'', JStr ''https://cdn.jsdelivr.net/gh/dharmx/walls@main/a.jpg''),
     (''thumbnail'', JStr ''https://cdn.jsdelivr.net/gh/dharmx/walls@main/a.jpg''),
     (''source'', JStr ''github''),
     (''repo'', JStr ''dharmx/walls''),
     (''category'', JStr ''other''),
     (''colors'', JArr [JStr ''#282828'']),
     (''brightness'', JInt 40),
     (''contrast'', JInt 30),
     (''embedding'', JArr [JFloat 1]),
     (''resolution'', JStr ''1920x1080''),
     (''attribution'', JStr ''dharmx/walls'')]"

text \<open>
  A second image, in the second repository, with a given hash, and its record; a world in
  which the first two repositories can be cloned and hold one image each.
\<close>

definition sample_image2 :: "phash \<Rightarrow> file_entry" where
  "sample_image2 h =
     \<lparr>rel_path = ''b.jpg'', st_size = Some 700000, dimensions = Some (2560, 1440),
      compute_perceptual_hash = Some h, extract_embedding = Some [0, 1],
      extract_colors = [''#1d2021''], calculate_brightness = 20, calculate_contrast = 35,
      get_image_resolution = ''2560x1440''\<rparr>"

definition sample_record2 :: json where
  "sample_record2 = JObj [
     (''id'', JStr ''D3Ext_6f36890fc93e''),
     (''url'', JStr ''https://cdn.jsdelivr.net/gh/D3Ext/aesthetic-wallpapers@main/b.jpg''),
     (''thumbnail'', JStr ''https://cdn.jsdelivr.net/gh/D3Ext/aesthetic-wallpapers@main/b.jpg''),
     (''source'', JStr ''github''),
     (''repo'', JStr ''D3Ext/aesthetic-wallpapers''),
     (''category'', JStr ''aesthetic''),
     (''colors'', JArr [JStr ''#1d2021'']),
     (''brightness'', JInt 20),
     (''contrast'', JInt 35),
     (''embedding'', JArr [JFloat 0, JFloat 1]),
     (''resolution'', JStr ''2560x1440''),
     (''attribution'', JStr ''D3Ext/aesthetic-wallpapers'')]"

definition sample_world2 :: "phash \<Rightarrow> string \<Rightarrow> remote" where
  "sample_world2 h name =
     (if name = ''dharmx/walls''
      then \<lparr>git_run = (\<lambda>n k. CompletedProcess 0 []), cloned_tree = [sample_image]\<rparr>
      else if name = ''D3Ext/aesthetic-wallpapers''
      then \<lparr>git_run = (\<lambda>n k. CompletedProcess 0 []), cloned_tree = [sample_image2 h]\<rparr>
      else \<lparr>git_run = (\<lambda>n k. CompletedProcess 128 ''remote: Repository not found.''),
            cloned_tree = []\<rparr>)"

definition sample_world :: "string \<Rightarrow> remote" where
  "sample_world name =
     (if name = ''dharmx/walls''
      then \<lparr>git_run = (\<lambda>n k. CompletedProcess 0 []), cloned_tree = [sample_image]\<rparr>
      else \<lparr>git_run = (\<lambda>n k. CompletedProcess 128 ''remote: Repository not found.''),
            cloned_tree = []\<rparr>)"

definition sample_time :: "int \<Rightarrow> string" where
  "sample_time idx = ''2024-01-01T00:00:00''"

text \<open>The text of a checkpoint that holds the sample record, for a given index.\<close>

definition sample_text :: "string \<Rightarrow> string" where
  \<open>sample_text index =
     ''{"wallpapers": [{"id": "dharmx_da77e7bb4030", ''
     @ ''"url": "https://cdn.jsdelivr.net/gh/dharmx/walls@main/a.jpg", ''
     @ ''"thumbnail": "https://cdn.jsdelivr.net/gh/dharmx/walls@main/a.jpg", ''
     @ ''"source": "github", "repo": "dharmx/walls", "category": "other", ''
     @ ''"colors": ["#282828"], "brightness": 40, "contrast": 30, "embedding": [1.0], ''
     @ ''"resolution": "1920x1080", "attribution": "dharmx/walls"}], ''
     @ ''"last_repo_index": '' @ index @ '', "timestamp": "2024-01-01T00:00:00"}''\<close>

definition sample_json :: "(json \<times> string) list" where
  "sample_json =
     [(checkpoint_data [sample_record] 0 ''2024-01-01T00:00:00'', sample_text ''0''),
      (checkpoint_data [sample_record] 1 ''2024-01-01T00:00:00'', sample_text ''1'')]"

text \<open>Documents outside the table get the empty text; no example depends on it.\<close>

definition sample_dumps :: "json \<Rightarrow> string" where
  "sample_dumps v = (case map_of sample_json v of None \<Rightarrow> [] | Some text \<Rightarrow> text)"

definition sample_loads :: "string \<Rightarrow> json option" where
  "sample_loads text = map_of (map (\<lambda>(v, t). (t, v)) sample_json) text"

section \<open>Properties\<close>

subsection \<open>Deduplication\<close>

lemma hash_sub_sym: "hash_sub a b = hash_sub b a"
  by (simp add: hash_sub_def eq_commute)

lemma hash_sub_self: "hash_sub a a = 0"
  by (simp add: hash_sub_def)

lemma is_duplicate_iff:
  "is_duplicate p hs \<longleftrightarrow> (\<exists>h \<in> set hs. hash_sub p h \<le> PHASH_THRESHOLD)"
  by (induction hs) auto

lemma is_duplicate_member: "p \<in> set hs \<Longrightarrow> is_duplicate p hs"
  unfolding is_duplicate_iff by (rule bexI [of _ p]) (simp_all add: hash_sub_self)

text \<open>
  C6. The distance between two perceptual hashes is symmetric, and the duplicate check
  answers True exactly when some hash already in the seen set is at distance at most the
  threshold, which is 5 bits.
\<close>

theorem duplicate_check_threshold:
  "hash_sub a b = hash_sub b a
   \<and> (is_duplicate p hs \<longleftrightarrow> (\<exists>h \<in> set hs. hash_sub p h \<le> 5))"
  using is_duplicate_iff [of p hs] by (simp add: hash_sub_sym PHASH_THRESHOLD_def)

theorem duplicate_check_threshold_witness:
  "hash_sub (0x8f3c2a11d4e0b597 :: phash) 0x8f3c2a11d4e0b590 = 3
   \<and> hash_sub (0x8f3c2a11d4e0b590 :: phash) 0x8f3c2a11d4e0b597 = 3
   \<and> is_duplicate 0x8f3c2a11d4e0b597 [0x00000000ffffffff, 0x8f3c2a11d4e0b590]
   \<and> \<not> is_duplicate 0x8f3c2a11d4e0b597 [0x00000000ffffffff]"
proof -
  have d1: "hash_sub (0x8f3c2a11d4e0b597 :: phash) 0x8f3c2a11d4e0b590 = 3"
    by code_simp
  have d2: "hash_sub (0x8f3c2a11d4e0b597 :: phash) 0x00000000ffffffff = 29"
    by code_simp
  note yes = duplicate_check_threshold
    [of "0x8f3c2a11d4e0b597" "0x8f3c2a11d4e0b590" "0x8f3c2a11d4e0b597"
        "[0x00000000ffffffff, 0x8f3c2a11d4e0b590]"]
  note no = duplicate_check_threshold
    [of "0x8f3c2a11d4e0b597" "0x8f3c2a11d4e0b590" "0x8f3c2a11d4e0b597" "[0x00000000ffffffff]"]
  from yes no d1 d2 show ?thesis
    by (simp add: PHASH_THRESHOLD_def)
qed

subsection \<open>The sample inputs evaluated\<close>

lemma sample_category: "detect_category ''a.jpg'' ''dharmx/walls'' = ''other''"
  by code_simp

lemma sample_id:
  "generate_wallpaper_id sample_md5 ''dharmx/walls'' ''a.jpg'' = Inr ''dharmx_da77e7bb4030''"
  by code_simp

lemma sample_url:
  "generate_cdn_url ''dharmx/walls'' ''a.jpg'' ''main''
   = ''https://cdn.jsdelivr.net/gh/dharmx/walls@main/a.jpg''"
  by code_simp

lemma sample_record_eq:
  "wallpaper_data sample_md5 (hd REPOSITORIES) sample_image [1] = Inr sample_record"
  by (simp add: wallpaper_data_def Let_def sample_record_def sample_image_def REPOSITORIES_def
        sample_category sample_id sample_url)

lemma sample_category2: "detect_category ''b.jpg'' ''D3Ext/aesthetic-wallpapers'' = ''aesthetic''"
  by code_simp

lemma sample_id2:
  "generate_wallpaper_id sample_md5 ''D3Ext/aesthetic-wallpapers'' ''b.jpg''
   = Inr ''D3Ext_6f36890fc93e''"
  by code_simp

lemma sample_url2:
  "generate_cdn_url ''D3Ext/aesthetic-wallpapers'' ''b.jpg'' ''main''
   = ''https://cdn.jsdelivr.net/gh/D3Ext/aesthetic-wallpapers@main/b.jpg''"
  by code_simp

lemma sample_record2_eq:
  "repo_name repo = ''D3Ext/aesthetic-wallpapers'' \<Longrightarrow> repo_branch repo = ''main'' \<Longrightarrow>
   wallpaper_data sample_md5 repo (sample_image2 h) [0, 1] = Inr sample_record2"
  by (simp add: wallpaper_data_def Let_def sample_record2_def sample_image2_def
        sample_category2 sample_id2 sample_url2)

lemma sample_undecodable:
  "generate_wallpaper_id sample_md5 ''dharmx/walls'' (CHR 0xFF # ''.jpg'') = Inl UnicodeEncodeError"
  by code_simp

lemma sample_hash: "compute_perceptual_hash sample_image = Some 0x8f3c2a11d4e0b597"
  and sample_embedding: "extract_embedding sample_image = Some [1]"
  by (simp_all add: sample_image_def)

lemma sample_near: "hash_sub (0x8f3c2a11d4e0b590 :: phash) 0x8f3c2a11d4e0b597 = 3"
  by code_simp

lemma sample_far: "hash_sub (0x00000000ffffffff :: phash) 0x8f3c2a11d4e0b597 = 29"
  by code_simp

lemma sample_scan: "find_wallpapers [sample_image] = [sample_image]"
  by (simp add: find_wallpapers_def rglob_def SUPPORTED_EXTENSIONS_def endswith_def
        sample_image_def valid_wallpaper_def MAX_FILE_SIZE_def MIN_RESOLUTION_def)

lemma sample_scan2: "find_wallpapers [sample_image2 h] = [sample_image2 h]"
  by (simp add: find_wallpapers_def rglob_def SUPPORTED_EXTENSIONS_def endswith_def
        sample_image2_def valid_wallpaper_def MAX_FILE_SIZE_def MIN_RESOLUTION_def)

lemma clone_full_ok:
  "clone_repository repo (\<lambda>n k. CompletedProcess 0 []) False 3
   = \<lparr>returned = Some (repo_path repo), attempts = 1, sleeps = []\<rparr>"
  by (simp add: clone_repository_def)

lemma clone_full_not_found:
  "clone_repository repo (\<lambda>n k. CompletedProcess 128 ''remote: Repository not found.'') False 3
   = \<lparr>returned = None, attempts = 1, sleeps = []\<rparr>"
proof -
  have "\<not> contains ''Could not resolve host'' ''remote: Repository not found.''"
    by code_simp
  moreover have "\<not> contains ''Connection'' ''remote: Repository not found.''"
    by code_simp
  ultimately show ?thesis
    by (simp add: clone_repository_def)
qed

lemma sample_first_repository:
  "process_repository sample_md5 (hd REPOSITORIES) (sample_world ''dharmx/walls'') [] False
   = ([sample_record], [0x8f3c2a11d4e0b597])"
  by (simp add: process_repository_def sample_world_def clone_full_ok sample_scan set_add_def
        sample_hash sample_embedding sample_record_eq)

lemma sample_other_repository:
  "name \<noteq> ''dharmx/walls'' \<Longrightarrow>
   process_repository sample_md5 repo (sample_world name) hs False = ([], hs)"
  by (simp add: process_repository_def sample_world_def clone_full_not_found)

lemma sample2_first_repository:
  "process_repository sample_md5 (hd REPOSITORIES) (sample_world2 h ''dharmx/walls'') [] False
   = ([sample_record], [0x8f3c2a11d4e0b597])"
  by (simp add: process_repository_def sample_world2_def clone_full_ok sample_scan set_add_def
        sample_hash sample_embedding sample_record_eq)

lemma sample2_second_repository:
  "repo_name repo = ''D3Ext/aesthetic-wallpapers'' \<Longrightarrow> repo_branch repo = ''main'' \<Longrightarrow>
   process_repository sample_md5 repo (sample_world2 h ''D3Ext/aesthetic-wallpapers'') hs False
   = (if is_duplicate h hs then ([], hs) else ([sample_record2], set_add h hs))"
proof -
  assume n: "repo_name repo = ''D3Ext/aesthetic-wallpapers''" and b: "repo_branch repo = ''main''"
  have h: "compute_perceptual_hash (sample_image2 h) = Some h"
    and e: "extract_embedding (sample_image2 h) = Some [0, 1]"
    by (simp_all add: sample_image2_def)
  show ?thesis
    by (simp add: process_repository_def sample_world2_def clone_full_ok sample_scan2
          sample_record2_eq [OF n b] h e)
qed

lemma sample2_other_repository:
  "name \<noteq> ''dharmx/walls'' \<Longrightarrow> name \<noteq> ''D3Ext/aesthetic-wallpapers'' \<Longrightarrow>
   process_repository sample_md5 repo (sample_world2 h name) hs False = ([], hs)"
  by (simp add: process_repository_def sample_world2_def clone_full_not_found)

lemma sample_text_neq: "sample_text ''0'' \<noteq> sample_text ''1''"
  by (simp add: sample_text_def)

lemma sample_dumps_0:
  "sample_dumps (checkpoint_data [sample_record] 0 ''2024-01-01T00:00:00'') = sample_text ''0''"
  by (simp add: sample_dumps_def sample_json_def)

lemma sample_dumps_1:
  "sample_dumps (checkpoint_data [sample_record] 1 ''2024-01-01T00:00:00'') = sample_text ''1''"
  by (simp add: sample_dumps_def sample_json_def checkpoint_data_def)

lemma sample_loads_0:
  "sample_loads (sample_text ''0'')
   = Some (checkpoint_data [sample_record] 0 ''2024-01-01T00:00:00'')"
  by (simp add: sample_loads_def sample_json_def)

lemma sample_loads_truncated: "sample_loads (take 40 (sample_text ''0'')) = None"
  by (simp add: sample_loads_def sample_json_def sample_text_def)

subsection \<open>The checkpoint file\<close>

lemma save_checkpoint_ok:
  "f \<noteq> Denied \<Longrightarrow>
   save_checkpoint dumps utcnow f ws i = Inr (File (dumps (checkpoint_data ws i utcnow)))"
  by (cases f)
     (simp_all add: save_checkpoint_def save_checkpoint_states_def Let_def upt_rec [of 0] last_map
        del: upt_Suc)

lemma save_checkpoint_denied: "save_checkpoint dumps utcnow Denied ws i = Inl OSError"
  by (simp add: save_checkpoint_def save_checkpoint_states_def)

lemma save_checkpoint_Inr:
  "save_checkpoint dumps utcnow f ws i = Inr f' \<Longrightarrow>
   f' = File (dumps (checkpoint_data ws i utcnow))"
  by (cases "f = Denied") (simp_all add: save_checkpoint_ok save_checkpoint_denied)

lemma load_checkpoint_doc:
  "loads text = Some (checkpoint_data ws i ts) \<Longrightarrow>
   load_checkpoint loads (File text) = (JArr ws, JInt (i + 1), [])"
  by (simp add: load_checkpoint_def load_checkpoint_try_def checkpoint_data_def dict_get_def)

lemma load_checkpoint_hashes: "snd (snd (load_checkpoint loads f)) = []"
  by (auto simp: load_checkpoint_def load_checkpoint_try_def Let_def
        split: file_state.splits option.splits json.splits sum.splits)

text \<open>
  C1. Checkpoint round trip: when \<open>save_checkpoint\<close> of a list of records and an index \<open>i\<close>
  returns, and \<^verbatim>\<open>json.load\<close> reads back the document that \<^verbatim>\<open>json.dump\<close> wrote (as it does
  for dictionaries of strings, numbers and lists), \<open>load_checkpoint\<close> on the file it left
  yields the same list of records, the resume index \<open>i + 1\<close> and an empty set of hashes.
\<close>

theorem checkpoint_roundtrip:
  assumes "save_checkpoint dumps utcnow f wallpapers repo_index = Inr f'"
    and "loads (dumps (checkpoint_data wallpapers repo_index utcnow))
         = Some (checkpoint_data wallpapers repo_index utcnow)"
  shows "load_checkpoint loads f' = (JArr wallpapers, JInt (repo_index + 1), [])"
  using assms save_checkpoint_Inr [OF assms(1)] by (simp add: load_checkpoint_doc)

theorem checkpoint_roundtrip_witness:
  "save_checkpoint sample_dumps ''2024-01-01T00:00:00'' Absent [sample_record] 0
     = Inr (File (sample_text ''0''))
   \<and> load_checkpoint sample_loads (File (sample_text ''0'')) = (JArr [sample_record], JInt 1, [])"
proof -
  have s: "save_checkpoint sample_dumps ''2024-01-01T00:00:00'' Absent [sample_record] 0
           = Inr (File (sample_text ''0''))"
    by (simp add: save_checkpoint_ok sample_dumps_0)
  from checkpoint_roundtrip [OF s, of sample_loads] s show ?thesis
    by (simp add: sample_dumps_0 sample_loads_0)
qed

text \<open>
  C2 as stated fails. Saving over an existing checkpoint: the first content of the file
  during the save is the empty text, which is neither the old checkpoint nor the new one,
  so the replacement is not atomic.
\<close>

theorem save_checkpoint_not_atomic:
  "save_checkpoint_states sample_dumps ''2024-01-01T00:00:00'' (File (sample_text ''0''))
       [sample_record] 1 ! 0 = File []
   \<and> File [] \<noteq> File (sample_text ''0'')
   \<and> File [] \<noteq> File (sample_text ''1'')
   \<and> save_checkpoint sample_dumps ''2024-01-01T00:00:00'' (File (sample_text ''0''))
       [sample_record] 1 = Inr (File (sample_text ''1''))"
  by (simp add: save_checkpoint_ok sample_dumps_1 save_checkpoint_states_def Let_def
        nth_append upt_rec [of 0] del: upt_Suc)
     (simp add: sample_text_def)

text \<open>
  C2, amended. \<open>save_checkpoint\<close> writes in place: when the file can be opened, its first
  content during the save is the empty text, every content is a prefix of the text of the
  new state (never a part of the old one), and the content when the call returns is the
  whole text of the new state.
\<close>

theorem save_checkpoint_in_place:
  assumes "f \<noteq> Denied"
  shows "hd (save_checkpoint_states dumps utcnow f ws i) = File []
    \<and> save_checkpoint dumps utcnow f ws i = Inr (File (dumps (checkpoint_data ws i utcnow)))
    \<and> last (save_checkpoint_states dumps utcnow f ws i)
        = File (dumps (checkpoint_data ws i utcnow))
    \<and> (\<forall>s \<in> set (save_checkpoint_states dumps utcnow f ws i).
          \<exists>content. s = File content \<and> prefix content (dumps (checkpoint_data ws i utcnow)))"
proof -
  let ?text = "dumps (checkpoint_data ws i utcnow)"
  have st: "save_checkpoint_states dumps utcnow f ws i
            = map (\<lambda>n. File (take n ?text)) [0..<Suc (length ?text)]"
    using assms by (cases f) (simp_all add: save_checkpoint_states_def Let_def del: upt_Suc)
  have "hd (map (\<lambda>n. File (take n ?text)) [0..<Suc (length ?text)]) = File []"
    by (simp add: upt_rec [of 0] del: upt_Suc)
  moreover have "last (map (\<lambda>n. File (take n ?text)) [0..<Suc (length ?text)]) = File ?text"
    by (simp add: last_map)
  moreover have "\<forall>s \<in> set (map (\<lambda>n. File (take n ?text)) [0..<Suc (length ?text)]).
          \<exists>content. s = File content \<and> prefix content ?text"
    by (auto simp: take_is_prefix simp del: upt_Suc)
  ultimately show ?thesis
    using st save_checkpoint_ok [OF assms] by simp
qed

theorem save_checkpoint_in_place_witness:
  "File (sample_text ''0'') \<noteq> Denied
   \<and> hd (save_checkpoint_states sample_dumps ''2024-01-01T00:00:00'' (File (sample_text ''0''))
         [sample_record] 1) = File []
   \<and> last (save_checkpoint_states sample_dumps ''2024-01-01T00:00:00'' (File (sample_text ''0''))
         [sample_record] 1) = File (sample_text ''1'')
   \<and> save_checkpoint sample_dumps ''2024-01-01T00:00:00'' (File (sample_text ''0''))
         [sample_record] 1 = Inr (File (sample_text ''1''))"
proof -
  have d: "File (sample_text ''0'') \<noteq> Denied"
    by simp
  from save_checkpoint_in_place
    [OF d, of sample_dumps "''2024-01-01T00:00:00''" "[sample_record]" 1]
  show ?thesis
    by (simp add: sample_dumps_1)
qed

text \<open>
  C10. When the checkpoint file is absent, cannot be opened, or holds a text that
  \<^verbatim>\<open>json.load\<close> rejects, \<open>load_checkpoint\<close> returns the empty state: no records, resume
  index 0, no hashes. (Every exception of the \<^verbatim>\<open>try\<close> block is a branch of
  \<open>load_checkpoint_try\<close>, and \<open>load_checkpoint\<close> maps each to the empty state.)
\<close>

theorem load_checkpoint_degrades:
  "f = Absent \<or> f = Denied \<or> (\<exists>text. f = File text \<and> loads text = None)
   \<Longrightarrow> load_checkpoint loads f = (JArr [], JInt 0, [])"
  by (auto simp: load_checkpoint_def load_checkpoint_try_def)

theorem load_checkpoint_degrades_witness:
  "load_checkpoint sample_loads Absent = (JArr [], JInt 0, [])
   \<and> load_checkpoint sample_loads Denied = (JArr [], JInt 0, [])
   \<and> load_checkpoint sample_loads (File (take 40 (sample_text ''0''))) = (JArr [], JInt 0, [])"
  using load_checkpoint_degrades [of Absent sample_loads]
    load_checkpoint_degrades [of Denied sample_loads]
    load_checkpoint_degrades [of "File (take 40 (sample_text ''0''))" sample_loads]
  by (simp add: sample_loads_truncated)

lemma sample_resumed_run:
  "rs_wallpapers (projr
      (main sample_md5 sample_dumps sample_loads sample_time False True
         (sample_world2 0x8f3c2a11d4e0b590) (File (sample_text ''0''))))
   = JArr [sample_record, sample_record2]"
  apply (simp add: main_def slice_from_def load_checkpoint_doc sample_loads_0)
  apply (simp add: REPOSITORIES_def)
  apply (simp add: sample2_second_repository sample2_other_repository save_checkpoint_ok
      set_add_def)
  done

lemma sample_uninterrupted_run:
  "rs_wallpapers (projr
      (main sample_md5 sample_dumps sample_loads sample_time False False
         (sample_world2 0x8f3c2a11d4e0b590) Absent))
   = JArr [sample_record]"
  apply (simp add: main_def slice_from_def)
  apply (simp add: REPOSITORIES_def)
  apply (simp add: sample2_first_repository [simplified REPOSITORIES_def, simplified]
      sample2_second_repository sample2_other_repository save_checkpoint_ok
      sample_near PHASH_THRESHOLD_def)
  done

text \<open>
  C5. Whatever the checkpoint file holds, the set of hashes that \<open>load_checkpoint\<close> returns
  is empty; so the first image of a resumed run that has a hash and an embedding and for
  which the record can be built is admitted, however close its hash is to that of an image
  whose record the checkpoint restored.
\<close>

theorem resume_readmits:
  assumes "load_checkpoint loads f = (wallpapers, start_index, processed_hashes)"
    and "compute_perceptual_hash img = Some p"
    and "extract_embedding img = Some e"
    and "wallpaper_data md5 repo img e = Inr r"
  shows "processed_hashes = []
         \<and> process_images md5 repo [] processed_hashes [img] = ([r], [p])"
proof -
  have "processed_hashes = []"
    using load_checkpoint_hashes [of loads f] assms(1) by simp
  then show ?thesis
    using assms(2,3,4) by (simp add: set_add_def)
qed

text \<open>
  The checkpoint written after the first repository holds the record of an image with hash
  \<open>8f3c2a11d4e0b597\<close>; the second repository holds an image whose hash differs from it in
  3 bits. The run resumed from that checkpoint starts at the second repository and admits
  the image; the uninterrupted run rejects it as a duplicate.
\<close>

theorem resume_readmits_witness:
  "load_checkpoint sample_loads (File (sample_text ''0'')) = (JArr [sample_record], JInt 1, [])
   \<and> hash_sub (0x8f3c2a11d4e0b590 :: phash) 0x8f3c2a11d4e0b597 = 3
   \<and> process_images sample_md5 (REPOSITORIES ! 1) [] [] [sample_image2 0x8f3c2a11d4e0b590]
       = ([sample_record2], [0x8f3c2a11d4e0b590])
   \<and> rs_wallpapers (projr
        (main sample_md5 sample_dumps sample_loads sample_time False True
           (sample_world2 0x8f3c2a11d4e0b590) (File (sample_text ''0''))))
       = JArr [sample_record, sample_record2]
   \<and> rs_wallpapers (projr
        (main sample_md5 sample_dumps sample_loads sample_time False False
           (sample_world2 0x8f3c2a11d4e0b590) Absent))
       = JArr [sample_record]"
proof -
  have l: "load_checkpoint sample_loads (File (sample_text ''0''))
           = (JArr [sample_record], JInt 1, [])"
    by (simp add: load_checkpoint_doc sample_loads_0)
  have h: "compute_perceptual_hash (sample_image2 0x8f3c2a11d4e0b590) = Some 0x8f3c2a11d4e0b590"
    and e: "extract_embedding (sample_image2 0x8f3c2a11d4e0b590) = Some [0, 1]"
    by (simp_all add: sample_image2_def)
  have r: "wallpaper_data sample_md5 (REPOSITORIES ! 1) (sample_image2 0x8f3c2a11d4e0b590) [0, 1]
           = Inr sample_record2"
    by (rule sample_record2_eq) (simp_all add: REPOSITORIES_def)
  from resume_readmits [OF l h e r] l sample_near sample_resumed_run sample_uninterrupted_run
  show ?thesis
    by simp
qed

subsection \<open>The processing loop\<close>

lemma set_add_fresh: "\<not> is_duplicate p hs \<Longrightarrow> set_add p hs = hs @ [p]"
  using is_duplicate_member [of p hs] by (auto simp: set_add_def)

text \<open>
  C3 as stated fails. An image whose hash is no duplicate of the seen set but whose
  embedding cannot be extracted is skipped, and its hash is not added.
\<close>

theorem fingerprint_not_registered:
  "compute_perceptual_hash (sample_image\<lparr>extract_embedding := None\<rparr>) = Some 0x8f3c2a11d4e0b597
   \<and> \<not> is_duplicate 0x8f3c2a11d4e0b597 []
   \<and> process_images sample_md5 (hd REPOSITORIES) [] []
        [sample_image\<lparr>extract_embedding := None\<rparr>] = ([], [])"
  by (simp add: sample_image_def)

lemma process_images_append:
  "process_images md5 repo ws hs (xs @ ys)
   = (case process_images md5 repo ws hs xs of (ws1, hs1) \<Rightarrow> process_images md5 repo ws1 hs1 ys)"
  by (induction xs arbitrary: ws hs) (simp_all split: option.splits sum.splits)

lemma process_images_accepted:
  "process_images md5 repo ws hs imgs = (ws', hs') \<Longrightarrow>
   \<exists>acc rs. subseq acc imgs
     \<and> ws' = ws @ rs
     \<and> map Inr rs = map (\<lambda>i. wallpaper_data md5 repo i (the (extract_embedding i))) acc
     \<and> hs' = hs @ map (\<lambda>i. the (compute_perceptual_hash i)) acc"
proof (induction imgs arbitrary: ws hs)
  case Nil
  then show ?case by simp
next
  case (Cons img rest)
  show ?case
  proof (cases "\<exists>p e r. compute_perceptual_hash img = Some p \<and> \<not> is_duplicate p hs
                   \<and> extract_embedding img = Some e \<and> wallpaper_data md5 repo img e = Inr r")
    case True
    then obtain p e r where p: "compute_perceptual_hash img = Some p" "\<not> is_duplicate p hs"
      and e: "extract_embedding img = Some e" and r: "wallpaper_data md5 repo img e = Inr r"
      by blast
    from Cons.prems p e r
    have "process_images md5 repo (ws @ [r]) (hs @ [p]) rest = (ws', hs')"
      by (simp add: set_add_fresh)
    from Cons.IH [OF this] obtain acc rs where acc: "subseq acc rest"
      "ws' = (ws @ [r]) @ rs"
      "map Inr rs = map (\<lambda>i. wallpaper_data md5 repo i (the (extract_embedding i))) acc"
      "hs' = (hs @ [p]) @ map (\<lambda>i. the (compute_perceptual_hash i)) acc"
      by blast
    show ?thesis
      by (rule exI [of _ "img # acc"], rule exI [of _ "r # rs"]) (use acc p e r in simp)
  next
    case False
    with Cons.prems have "process_images md5 repo ws hs rest = (ws', hs')"
      by (auto split: option.splits if_splits sum.splits)
    from Cons.IH [OF this] obtain acc rs where acc: "subseq acc rest"
      "ws' = ws @ rs"
      "map Inr rs = map (\<lambda>i. wallpaper_data md5 repo i (the (extract_embedding i))) acc"
      "hs' = hs @ map (\<lambda>i. the (compute_perceptual_hash i)) acc"
      by blast
    show ?thesis
      by (rule exI [of _ acc], rule exI [of _ rs]) (use acc in \<open>simp add: list_emb_Cons\<close>)
  qed
qed

text \<open>
  An image whose name is not well-formed UTF-8 is skipped by the exception handler, with
  no record and no hash, although it has a hash, is no duplicate and has an embedding.
\<close>

lemma undecodable_name_skipped:
  "process_images sample_md5 (hd REPOSITORIES) [] []
     [sample_image\<lparr>rel_path := CHR 0xFF # ''.jpg''\<rparr>] = ([], [])"
  by (simp add: wallpaper_data_def Let_def sample_image_def REPOSITORIES_def sample_undecodable)

text \<open>
  C3, amended. Let the loop have processed the images \<open>pre\<close>, from the list \<open>ws\<close> and the
  seen set \<open>hs\<close>, leaving \<open>ws1\<close> and \<open>hs1\<close>, and let it leave \<open>ws2\<close> and \<open>hs2\<close> after the next
  image. Then
  \<^item> the hash of the image is added exactly when its record is appended: either the image
    has a hash that is no duplicate of \<open>hs1\<close>, its embedding is extracted and its record is
    built, and then the record is appended to \<open>ws1\<close> and the hash to \<open>hs1\<close>; or one of these
    fails, and then both are unchanged;
  \<^item> this is done before the next image is looked at: the images \<open>post\<close> that follow are
    processed from \<open>ws2\<close> and \<open>hs2\<close>;
  \<^item> so far the records appended and the hashes appended are those of one and the same
    subsequence \<open>acc\<close> of \<open>pre\<close>, in processing order.
\<close>

theorem fingerprints_follow_records:
  assumes "process_images md5 repo ws hs pre = (ws1, hs1)"
    and "process_images md5 repo ws hs (pre @ [img]) = (ws2, hs2)"
  shows "((\<exists>p e r. compute_perceptual_hash img = Some p \<and> \<not> is_duplicate p hs1
             \<and> extract_embedding img = Some e \<and> wallpaper_data md5 repo img e = Inr r
             \<and> ws2 = ws1 @ [r] \<and> hs2 = hs1 @ [p])
          \<or> (\<not> (\<exists>p e r. compute_perceptual_hash img = Some p \<and> \<not> is_duplicate p hs1
                  \<and> extract_embedding img = Some e \<and> wallpaper_data md5 repo img e = Inr r)
              \<and> ws2 = ws1 \<and> hs2 = hs1))
         \<and> process_images md5 repo ws hs (pre @ img # post)
             = process_images md5 repo ws2 hs2 post
         \<and> (\<exists>acc rs. subseq acc pre
              \<and> ws1 = ws @ rs
              \<and> map Inr rs = map (\<lambda>i. wallpaper_data md5 repo i (the (extract_embedding i))) acc
              \<and> hs1 = hs @ map (\<lambda>i. the (compute_perceptual_hash i)) acc)"
proof -
  have step: "process_images md5 repo ws1 hs1 [img] = (ws2, hs2)"
    using assms by (simp add: process_images_append)
  have one: "(\<exists>p e r. compute_perceptual_hash img = Some p \<and> \<not> is_duplicate p hs1
             \<and> extract_embedding img = Some e \<and> wallpaper_data md5 repo img e = Inr r
             \<and> ws2 = ws1 @ [r] \<and> hs2 = hs1 @ [p])
          \<or> (\<not> (\<exists>p e r. compute_perceptual_hash img = Some p \<and> \<not> is_duplicate p hs1
                  \<and> extract_embedding img = Some e \<and> wallpaper_data md5 repo img e = Inr r)
              \<and> ws2 = ws1 \<and> hs2 = hs1)"
  proof (cases "\<exists>p e r. compute_perceptual_hash img = Some p \<and> \<not> is_duplicate p hs1
                  \<and> extract_embedding img = Some e \<and> wallpaper_data md5 repo img e = Inr r")
    case True
    then obtain p e r where "compute_perceptual_hash img = Some p" "\<not> is_duplicate p hs1"
      "extract_embedding img = Some e" "wallpaper_data md5 repo img e = Inr r"
      by blast
    with step show ?thesis
      by (simp add: set_add_fresh)
  next
    case False
    with step have "ws2 = ws1 \<and> hs2 = hs1"
      by (auto split: option.splits if_splits sum.splits)
    with False show ?thesis
      by blast
  qed
  have next_one: "process_images md5 repo ws hs (pre @ img # post)
                  = process_images md5 repo ws2 hs2 post"
    using process_images_append [of md5 repo ws hs "pre @ [img]" post] assms(2) by simp
  from one next_one process_images_accepted [OF assms(1)] show ?thesis
    by blast
qed

lemma sample_process_pre:
  "process_images sample_md5 (hd REPOSITORIES) [] [] [sample_image\<lparr>extract_embedding := None\<rparr>]
   = ([], [])"
  by (simp add: sample_image_def)

lemma sample_process_next:
  "process_images sample_md5 (hd REPOSITORIES) [] []
     ([sample_image\<lparr>extract_embedding := None\<rparr>] @ [sample_image])
   = ([sample_record], [0x8f3c2a11d4e0b597])"
  using sample_process_pre
  by (simp add: sample_hash sample_embedding sample_record_eq set_add_def)

text \<open>
  Three images: the first has no embedding, the second is accepted, the third is at 3 bits
  from the second. The second is registered before the third is looked at, and the third
  is rejected against it.
\<close>

theorem fingerprints_follow_records_witness:
  "process_images sample_md5 (hd REPOSITORIES) [] []
     ([sample_image\<lparr>extract_embedding := None\<rparr>] @ sample_image
        # [sample_image\<lparr>rel_path := ''b.jpg'',
                         compute_perceptual_hash := Some 0x8f3c2a11d4e0b590\<rparr>])
   = process_images sample_md5 (hd REPOSITORIES) [sample_record] [0x8f3c2a11d4e0b597]
       [sample_image\<lparr>rel_path := ''b.jpg'', compute_perceptual_hash := Some 0x8f3c2a11d4e0b590\<rparr>]
   \<and> process_images sample_md5 (hd REPOSITORIES) [sample_record] [0x8f3c2a11d4e0b597]
       [sample_image\<lparr>rel_path := ''b.jpg'', compute_perceptual_hash := Some 0x8f3c2a11d4e0b590\<rparr>]
     = ([sample_record], [0x8f3c2a11d4e0b597])"
proof -
  have "process_images sample_md5 (hd REPOSITORIES) [sample_record] [0x8f3c2a11d4e0b597]
       [sample_image\<lparr>rel_path := ''b.jpg'', compute_perceptual_hash := Some 0x8f3c2a11d4e0b590\<rparr>]
     = ([sample_record], [0x8f3c2a11d4e0b597])"
    by (simp add: sample_near PHASH_THRESHOLD_def)
  with fingerprints_follow_records [OF sample_process_pre sample_process_next]
  show ?thesis
    by blast
qed

text \<open>
  C9. The identifier stored in a record is \<open>generate_wallpaper_id\<close> of the name of the
  repository and the relative path of the image, and of nothing else: two calls for the
  same name and the same path give the same result, and two records built for them carry
  the same identifier, whatever the run, the other fields of the repository, the content
  of the image and its embedding. (Where the call raises, it raises for both, and no record
  is built.)
\<close>

theorem wallpaper_id_deterministic:
  assumes "repo_name repo1 = repo_name repo2"
    and "rel_path img1 = rel_path img2"
  shows "map_sum id (\<lambda>r. subscript r ''id'') (wallpaper_data md5 repo1 img1 e1)
           = map_sum id (\<lambda>w. Some (JStr w))
               (generate_wallpaper_id md5 (repo_name repo1) (rel_path img1))
         \<and> map_sum id (\<lambda>r. subscript r ''id'') (wallpaper_data md5 repo2 img2 e2)
           = map_sum id (\<lambda>r. subscript r ''id'') (wallpaper_data md5 repo1 img1 e1)
         \<and> generate_wallpaper_id md5 (repo_name repo2) (rel_path img2)
           = generate_wallpaper_id md5 (repo_name repo1) (rel_path img1)"
  using assms by (simp add: wallpaper_data_def subscript_def Let_def split: sum.splits)

theorem wallpaper_id_deterministic_witness:
  "map_sum id (\<lambda>r. subscript r ''id'')
     (wallpaper_data sample_md5 (hd REPOSITORIES) sample_image [1])
     = Inr (Some (JStr ''dharmx_da77e7bb4030''))
   \<and> map_sum id (\<lambda>r. subscript r ''id'')
     (wallpaper_data sample_md5
        ((hd REPOSITORIES)\<lparr>repo_url := ''git@github.com:dharmx/walls.git'',
                            repo_branch := ''dev''\<rparr>)
        (sample_image\<lparr>compute_perceptual_hash := None, calculate_brightness := 7\<rparr>) [0, 1])
     = Inr (Some (JStr ''dharmx_da77e7bb4030''))"
  using wallpaper_id_deterministic
    [of "hd REPOSITORIES"
        "(hd REPOSITORIES)\<lparr>repo_url := ''git@github.com:dharmx/walls.git'',
                            repo_branch := ''dev''\<rparr>"
        sample_image "sample_image\<lparr>compute_perceptual_hash := None, calculate_brightness := 7\<rparr>"
        sample_md5 "[1]" "[0, 1]"]
  by (simp add: REPOSITORIES_def sample_image_def sample_id)

subsection \<open>The asset scan\<close>

text \<open>
  C8 as stated fails. A file named \<^verbatim>\<open>a.JPG\<close>, whose extension is on the list when written
  in lower case and which passes the size and resolution checks, is matched by none of the
  four patterns and is not returned.
\<close>

theorem scan_misses_upper_case:
  "endswith (lower (rel_path (sample_image\<lparr>rel_path := ''a.JPG''\<rparr>))) ''.jpg''
   \<and> valid_wallpaper (sample_image\<lparr>rel_path := ''a.JPG''\<rparr>)
   \<and> concat (map (rglob [sample_image\<lparr>rel_path := ''a.JPG''\<rparr>]) SUPPORTED_EXTENSIONS) = []
   \<and> find_wallpapers [sample_image\<lparr>rel_path := ''a.JPG''\<rparr>] = []"
proof -
  have "lower ''a.JPG'' = ''a.jpg''"
    by code_simp
  then show ?thesis
    by (simp add: find_wallpapers_def rglob_def SUPPORTED_EXTENSIONS_def endswith_def
        sample_image_def valid_wallpaper_def MAX_FILE_SIZE_def MIN_RESOLUTION_def)
qed

text \<open>
  C8, amended. The scan compares the extension as it is written: a file is returned
  exactly when it is in the tree, its name ends with one of the extensions of the list in
  the list's own (lower-case) spelling, and it passes the size and resolution checks.
\<close>

theorem find_wallpapers_iff:
  "f \<in> set (find_wallpapers tree) \<longleftrightarrow>
     f \<in> set tree
     \<and> (\<exists>ext \<in> set SUPPORTED_EXTENSIONS. endswith (rel_path f) ext)
     \<and> valid_wallpaper f"
  by (auto simp: find_wallpapers_def rglob_def)

theorem find_wallpapers_iff_witness:
  "sample_image \<in> set (find_wallpapers [sample_image\<lparr>rel_path := ''a.JPG''\<rparr>, sample_image])
   \<and> sample_image\<lparr>rel_path := ''a.JPG''\<rparr>
       \<notin> set (find_wallpapers [sample_image\<lparr>rel_path := ''a.JPG''\<rparr>, sample_image])"
  using find_wallpapers_iff
      [of sample_image "[sample_image\<lparr>rel_path := ''a.JPG''\<rparr>, sample_image]"]
    find_wallpapers_iff
      [of "sample_image\<lparr>rel_path := ''a.JPG''\<rparr>"
          "[sample_image\<lparr>rel_path := ''a.JPG''\<rparr>, sample_image]"]
  by (simp add: SUPPORTED_EXTENSIONS_def endswith_def sample_image_def valid_wallpaper_def
        MAX_FILE_SIZE_def MIN_RESOLUTION_def)

subsection \<open>Cloning\<close>

text \<open>
  C7. The claim holds of the full clone and fails in the sparse one. When every run of
  \<^verbatim>\<open>git clone\<close> ends with status 128 and the message of a repository that does not exist
  (a failure that no retry can mend), the sparse clone of test mode makes all three
  attempts and sleeps twice, while the full clone gives up after the first attempt.
\<close>

theorem sparse_clone_retries_permanent_failure:
  "clone_repository (hd REPOSITORIES)
     (\<lambda>n k. CompletedProcess 128 ''remote: Repository not found.'') True 3
     = \<lparr>returned = None, attempts = 3, sleeps = [5, 5]\<rparr>
   \<and> clone_repository (hd REPOSITORIES)
     (\<lambda>n k. CompletedProcess 128 ''remote: Repository not found.'') False 3
     = \<lparr>returned = None, attempts = 1, sleeps = []\<rparr>"
  by (simp add: clone_full_not_found)
     (simp add: clone_repository_def sparse_clone_def REPOSITORIES_def)

subsection \<open>The main loop\<close>

lemma main_loop_saved:
  "sorted_wrt (\<lambda>a b. prefix (fst a) (fst b)) (rs_saved st) \<Longrightarrow>
   (\<And>acc c. rs_wallpapers st = JArr acc \<Longrightarrow> c \<in> set (rs_saved st) \<Longrightarrow> prefix (fst c) acc) \<Longrightarrow>
   sorted_wrt (\<lambda>a b. prefix (fst a) (fst b))
     (rs_saved (main_loop md5 dumps utcnow test idx srcs st))"
proof (induction srcs arbitrary: st idx)
  case Nil
  then show ?case by simp
next
  case (Cons src rest)
  obtain repo rem where src: "src = (repo, rem)"
    by (cases src)
  obtain ws hs where pr: "process_repository md5 repo rem (rs_hashes st) test = (ws, hs)"
    by (cases "process_repository md5 repo rem (rs_hashes st) test")
  have other: "sorted_wrt (\<lambda>a b. prefix (fst a) (fst b))
      (rs_saved (main_loop md5 dumps utcnow test (idx + 1) rest (st\<lparr>rs_hashes := hs\<rparr>)))"
    if "\<And>acc. rs_wallpapers st \<noteq> JArr acc"
    by (rule Cons.IH) (use Cons.prems(1) that in auto)
  show ?case
  proof (cases "rs_wallpapers st")
    case (JArr acc)
    have ext: "\<And>c. c \<in> set (rs_saved st) \<Longrightarrow> prefix (fst c) (acc @ ws)"
      using Cons.prems(2) [OF JArr] by (meson prefix_order.trans prefixI)
    show ?thesis
    proof (cases "save_checkpoint dumps (utcnow idx) (rs_checkpoint st) (acc @ ws) idx")
      case (Inl e)
      let ?st = "st\<lparr>rs_wallpapers := JArr (acc @ ws), rs_hashes := hs\<rparr>"
      have "sorted_wrt (\<lambda>a b. prefix (fst a) (fst b))
              (rs_saved (main_loop md5 dumps utcnow test (idx + 1) rest ?st))"
        by (rule Cons.IH) (use Cons.prems(1) ext in auto)
      then show ?thesis
        by (simp add: src pr JArr Inl)
    next
      case (Inr f)
      let ?st = "st\<lparr>rs_wallpapers := JArr (acc @ ws), rs_hashes := hs, rs_checkpoint := f,
                    rs_saved := rs_saved st @ [(acc @ ws, idx)]\<rparr>"
      have "sorted_wrt (\<lambda>a b. prefix (fst a) (fst b))
              (rs_saved (main_loop md5 dumps utcnow test (idx + 1) rest ?st))"
        by (rule Cons.IH) (use Cons.prems(1) ext in \<open>auto simp: sorted_wrt_append\<close>)
      then show ?thesis
        by (simp add: src pr JArr Inr)
    qed
  qed (use src pr other in simp_all)
qed

lemma sample_run_saved:
  "rs_saved (projr
        (main sample_md5 sample_dumps sample_loads sample_time False False sample_world Absent))
   = [([sample_record], 0), ([sample_record], 1), ([sample_record], 2), ([sample_record], 3),
      ([sample_record], 4), ([sample_record], 5), ([sample_record], 6), ([sample_record], 7)]"
  and sample_run_returns:
  "main sample_md5 sample_dumps sample_loads sample_time False False sample_world Absent
   = Inr (projr
       (main sample_md5 sample_dumps sample_loads sample_time False False sample_world Absent))"
  apply (simp_all add: main_def slice_from_def)
  apply (simp_all add: REPOSITORIES_def)
  apply (simp_all add: sample_first_repository [simplified REPOSITORIES_def, simplified]
      sample_other_repository save_checkpoint_ok)
  done

text \<open>
  C4 as stated fails. In a run where only the first repository yields a record, eight
  checkpoints are written and the second holds the same records as the first: no strict
  superset.
\<close>

theorem checkpoints_not_strict:
  "length (rs_saved (projr
      (main sample_md5 sample_dumps sample_loads sample_time False False sample_world Absent))) = 8
   \<and> \<not> set (fst (rs_saved (projr
      (main sample_md5 sample_dumps sample_loads sample_time False False sample_world Absent)) ! 0))
      \<subset> set (fst (rs_saved (projr
      (main sample_md5 sample_dumps sample_loads sample_time False False sample_world Absent)) ! 1))"
  by (simp add: sample_run_saved)

text \<open>
  C4, amended. Of two checkpoints written during one run, the record list of the later one
  starts with the record list of the earlier one; so its records are a superset of the
  earlier ones (not always a strict one, as the run above shows).
\<close>

theorem checkpoints_extend:
  assumes "main md5 dumps loads utcnow test resume world f = Inr st"
    and "i < j"
    and "j < length (rs_saved st)"
  shows "prefix (fst (rs_saved st ! i)) (fst (rs_saved st ! j))
         \<and> set (fst (rs_saved st ! i)) \<subseteq> set (fst (rs_saved st ! j))"
proof -
  have "sorted_wrt (\<lambda>a b. prefix (fst a) (fst b)) (rs_saved st)"
    using assms(1)
      main_loop_saved
        [where st = "\<lparr>rs_wallpapers = w, rs_hashes = h, rs_checkpoint = f, rs_saved = []\<rparr>" for w h]
    by (auto simp: main_def split: prod.splits json.splits if_splits)
  then have "prefix (fst (rs_saved st ! i)) (fst (rs_saved st ! j))"
    using assms(2,3) by (simp add: sorted_wrt_iff_nth_less)
  then show ?thesis
    by (simp add: set_mono_prefix)
qed

lemma sample_run2_saved:
  "rs_saved (projr
        (main sample_md5 sample_dumps sample_loads sample_time False False
           (sample_world2 0x00000000ffffffff) Absent))
   = [([sample_record], 0), ([sample_record, sample_record2], 1),
      ([sample_record, sample_record2], 2), ([sample_record, sample_record2], 3),
      ([sample_record, sample_record2], 4), ([sample_record, sample_record2], 5),
      ([sample_record, sample_record2], 6), ([sample_record, sample_record2], 7)]"
  and sample_run2_returns:
  "main sample_md5 sample_dumps sample_loads sample_time False False
     (sample_world2 0x00000000ffffffff) Absent
   = Inr (projr
       (main sample_md5 sample_dumps sample_loads sample_time False False
          (sample_world2 0x00000000ffffffff) Absent))"
  apply (simp_all add: main_def slice_from_def)
  apply (simp_all add: REPOSITORIES_def)
  apply (simp_all add: sample2_first_repository [simplified REPOSITORIES_def, simplified]
      sample2_second_repository sample2_other_repository save_checkpoint_ok
      sample_far PHASH_THRESHOLD_def set_add_def)
  done

text \<open>
  A run in which the first two repositories yield one record each: the second checkpoint
  extends the first by one record, the third equals the second.
\<close>

theorem checkpoints_extend_witness:
  "fst (rs_saved (projr
        (main sample_md5 sample_dumps sample_loads sample_time False False
           (sample_world2 0x00000000ffffffff) Absent)) ! 0) = [sample_record]
   \<and> fst (rs_saved (projr
        (main sample_md5 sample_dumps sample_loads sample_time False False
           (sample_world2 0x00000000ffffffff) Absent)) ! 1) = [sample_record, sample_record2]
   \<and> prefix
     (fst (rs_saved (projr
        (main sample_md5 sample_dumps sample_loads sample_time False False
           (sample_world2 0x00000000ffffffff) Absent)) ! 0))
     (fst (rs_saved (projr
        (main sample_md5 sample_dumps sample_loads sample_time False False
           (sample_world2 0x00000000ffffffff) Absent)) ! 1))
   \<and> prefix
     (fst (rs_saved (projr
        (main sample_md5 sample_dumps sample_loads sample_time False False
           (sample_world2 0x00000000ffffffff) Absent)) ! 1))
     (fst (rs_saved (projr
        (main sample_md5 sample_dumps sample_loads sample_time False False
           (sample_world2 0x00000000ffffffff) Absent)) ! 2))"
proof -
  have l1: "(1::nat) < length (rs_saved (projr
        (main sample_md5 sample_dumps sample_loads sample_time False False
           (sample_world2 0x00000000ffffffff) Absent)))"
    and l2: "(2::nat) < length (rs_saved (projr
        (main sample_md5 sample_dumps sample_loads sample_time False False
           (sample_world2 0x00000000ffffffff) Absent)))"
    by (simp_all add: sample_run2_saved)
  from checkpoints_extend [OF sample_run2_returns _ l1, of 0]
    checkpoints_extend [OF sample_run2_returns _ l2, of 1]
  show ?thesis
    by (simp add: sample_run2_saved)
qed

end
